theory Spec2Isabelle
  imports Complex_Main "HOL-Library.Multiset"
begin

section \<open>Strings\<close>

text \<open>
  Labels are Python \<open>str\<close> values, modelled as \<open>string\<close> (lists of 8-bit
  characters). The model covers strings of ASCII characters: on those, \<open>lower\<close> is
  \<open>str.lower()\<close>. A string with other characters is outside it (Python lowercases
  some of them, the Kelvin sign to \<open>k\<close> for one; \<open>lower\<close> leaves them alone).
  \<open>str_in needle hay\<close> is Python's \<open>needle in hay\<close> on strings: \<open>needle\<close> occurs in
  \<open>hay\<close> as a contiguous run.
\<close>

definition lower_char :: "char \<Rightarrow> char" where
  "lower_char c =
     (case map_of (zip ''ABCDEFGHIJKLMNOPQRSTUVWXYZ'' ''abcdefghijklmnopqrstuvwxyz'') c of
        None \<Rightarrow> c
      | Some l \<Rightarrow> l)"

definition lower :: "string \<Rightarrow> string" where
  "lower s = map lower_char s"

fun starts_with :: "string \<Rightarrow> string \<Rightarrow> bool" where
  "starts_with [] hay = True"
| "starts_with (c # cs) [] = False"
| "starts_with (c # cs) (h # hs) = (c = h \<and> starts_with cs hs)"

fun str_in :: "string \<Rightarrow> string \<Rightarrow> bool" where
  "str_in needle [] = (needle = [])"
| "str_in needle (h # hs) = (starts_with needle (h # hs) \<or> str_in needle hs)"

text \<open>\<open>d.get(key, default)\<close>: a key that is absent is \<open>None\<close> here.\<close>

definition get_or :: "'a option \<Rightarrow> 'a \<Rightarrow> 'a" where
  "get_or v dflt = (case v of None \<Rightarrow> dflt | Some x \<Rightarrow> x)"

section \<open>Work packages and time entries\<close>

text \<open>
  A work package is the JSON object the tracker returns. Only the keys the report code
  reads are kept; each is optional, as every read in the source is a \<open>.get\<close> with a
  default. \<open>emb_status_name\<close> is \<open>wp['_embedded']['status']['name']\<close>,
  \<open>link_status_title\<close> is \<open>wp['_links']['status']['title']\<close>, \<open>emb_type_name\<close> is
  \<open>wp['_embedded']['type']['name']\<close> and \<open>emb_assignee_name\<close> is
  \<open>wp['_embedded']['assignee']['name']\<close>. Values are strings (and an integer id): a
  JSON \<open>null\<close> or a number where the source calls \<open>.lower()\<close> is outside the model.
\<close>

record work_package =
  wp_id :: "int option"
  subject :: "string option"
  emb_status_name :: "string option"
  link_status_title :: "string option"
  emb_type_name :: "string option"
  emb_assignee_name :: "string option"
  updatedAt :: "string option"
  createdAt :: "string option"
  closedOn :: "string option"
  closedAt :: "string option"

text \<open>
  A time entry: \<open>hours\<close> is \<open>te.get('hours', 0)\<close> after \<open>float()\<close>, idealised as a
  real number; \<open>activity_name\<close> is \<open>te['_embedded']['activity']['name']\<close>.
\<close>

record time_entry =
  hours :: "real option"
  activity_name :: "string option"

text \<open>An exception raised is \<open>Inl\<close> of its message.\<close>

type_synonym exn = string

section \<open>report_formatter.py\<close>

subsection \<open>calculate_metrics\<close>

record metrics =
  total_wps :: nat
  done_count :: nat
  in_progress_count :: nat
  planned_count :: nat
  blocked_count :: nat
  bug_count :: nat
  feature_count :: nat
  total_hours :: real
  dev_hours :: real
  qa_hours :: real
  management_hours :: real

definition metrics_init :: "work_package list \<Rightarrow> metrics" where
  "metrics_init work_packages =
     \<lparr> total_wps = length work_packages, done_count = 0, in_progress_count = 0,
       planned_count = 0, blocked_count = 0, bug_count = 0, feature_count = 0,
       total_hours = 0, dev_hours = 0, qa_hours = 0, management_hours = 0 \<rparr>"

text \<open>The status part of the body of the first loop (source lines 38 to 60).\<close>

definition metrics_status :: "work_package \<Rightarrow> metrics \<Rightarrow> metrics" where
  "metrics_status wp m =
     (let status_name = lower (get_or (emb_status_name wp) []);
          status_name =
            (if status_name = [] \<or> status_name = ''unknown''
             then lower (get_or (link_status_title wp) [])
             else status_name)
      in if status_name = [] \<or> status_name = ''unknown''
           then m\<lparr>planned_count := planned_count m + 1\<rparr>
         else if str_in ''closed'' status_name \<or> str_in ''done'' status_name
               \<or> str_in ''resolved'' status_name \<or> str_in ''completed'' status_name
               \<or> str_in ''finished'' status_name
           then m\<lparr>done_count := done_count m + 1\<rparr>
         else if str_in ''progress'' status_name \<or> str_in ''development'' status_name
               \<or> str_in ''implementing'' status_name
           then m\<lparr>in_progress_count := in_progress_count m + 1\<rparr>
         else if str_in ''blocked'' status_name
           then m\<lparr>blocked_count := blocked_count m + 1\<rparr>
         else if str_in ''new'' status_name \<or> str_in ''open'' status_name
               \<or> str_in ''specified'' status_name \<or> str_in ''to do'' status_name
           then m\<lparr>planned_count := planned_count m + 1\<rparr>
         else m\<lparr>planned_count := planned_count m + 1\<rparr>)"

text \<open>The type part of the body of the first loop (source lines 62 to 67).\<close>

definition metrics_type :: "work_package \<Rightarrow> metrics \<Rightarrow> metrics" where
  "metrics_type wp m =
     (let wp_type = lower (get_or (emb_type_name wp) [])
      in if str_in ''bug'' wp_type \<or> str_in ''defect'' wp_type
           then m\<lparr>bug_count := bug_count m + 1\<rparr>
         else if str_in ''feature'' wp_type \<or> str_in ''story'' wp_type
               \<or> str_in ''task'' wp_type
           then m\<lparr>feature_count := feature_count m + 1\<rparr>
         else m)"

definition metrics_wp :: "work_package \<Rightarrow> metrics \<Rightarrow> metrics" where
  "metrics_wp wp m = metrics_type wp (metrics_status wp m)"

text \<open>The body of the second loop (source lines 70 to 80).\<close>

definition metrics_te :: "time_entry \<Rightarrow> metrics \<Rightarrow> metrics" where
  "metrics_te te m =
     (let h = get_or (hours te) 0;
          m = m\<lparr>total_hours := total_hours m + h\<rparr>;
          activity = lower (get_or (activity_name te) [])
      in if str_in ''development'' activity \<or> str_in ''implement'' activity
           then m\<lparr>dev_hours := dev_hours m + h\<rparr>
         else if str_in ''test'' activity \<or> str_in ''qa'' activity
           then m\<lparr>qa_hours := qa_hours m + h\<rparr>
         else if str_in ''management'' activity \<or> str_in ''meeting'' activity
           then m\<lparr>management_hours := management_hours m + h\<rparr>
         else m)"

definition calculate_metrics :: "work_package list \<Rightarrow> time_entry list \<Rightarrow> metrics" where
  "calculate_metrics work_packages time_entries =
     fold metrics_te time_entries (fold metrics_wp work_packages (metrics_init work_packages))"

subsection \<open>group_by_status\<close>

text \<open>
  The dictionary of six lists the function builds; the field \<open>g_done\<close> is the key
  \<open>'done'\<close>, and so on.
\<close>

record groups =
  g_done :: "work_package list"
  g_in_progress :: "work_package list"
  g_planned :: "work_package list"
  g_blocked :: "work_package list"
  g_de_scoped :: "work_package list"
  g_other :: "work_package list"

definition groups_init :: groups where
  "groups_init = \<lparr> g_done = [], g_in_progress = [], g_planned = [], g_blocked = [],
                    g_de_scoped = [], g_other = [] \<rparr>"

text \<open>The body of the loop (source lines 104 to 132); \<open>append\<close> adds at the end.\<close>

definition group_wp :: "work_package \<Rightarrow> groups \<Rightarrow> groups" where
  "group_wp wp g =
     (let status_name = lower (get_or (emb_status_name wp) []);
          status_name =
            (if status_name = [] \<or> status_name = ''unknown''
             then lower (get_or (link_status_title wp) [])
             else status_name)
      in if status_name = [] \<or> status_name = ''unknown''
           then g\<lparr>g_planned := g_planned g @ [wp]\<rparr>
         else if str_in ''closed'' status_name \<or> str_in ''done'' status_name
               \<or> str_in ''resolved'' status_name \<or> str_in ''completed'' status_name
               \<or> str_in ''finished'' status_name
           then g\<lparr>g_done := g_done g @ [wp]\<rparr>
         else if str_in ''progress'' status_name \<or> str_in ''development'' status_name
               \<or> str_in ''implementing'' status_name
           then g\<lparr>g_in_progress := g_in_progress g @ [wp]\<rparr>
         else if str_in ''blocked'' status_name
           then g\<lparr>g_blocked := g_blocked g @ [wp]\<rparr>
         else if str_in ''rejected'' status_name \<or> str_in ''cancelled'' status_name
           then g\<lparr>g_de_scoped := g_de_scoped g @ [wp]\<rparr>
         else if str_in ''new'' status_name \<or> str_in ''open'' status_name
               \<or> str_in ''specified'' status_name \<or> str_in ''to do'' status_name
           then g\<lparr>g_planned := g_planned g @ [wp]\<rparr>
         else g\<lparr>g_planned := g_planned g @ [wp]\<rparr>)"

definition group_by_status :: "work_package list \<Rightarrow> groups" where
  "group_by_status work_packages = fold group_wp work_packages groups_init"

subsection \<open>detect_blockers\<close>

record blocker =
  b_id :: "int option"
  b_subject :: "string option"
  b_assignee :: string
  b_status :: "string option"
  b_reason :: string

text \<open>
  The body of the loop (source lines 150 to 158). The second parameter of
  \<open>detect_blockers\<close>, the relations, is of any type: the source never reads it.
\<close>

definition blocker_wp :: "work_package \<Rightarrow> blocker list \<Rightarrow> blocker list" where
  "blocker_wp wp blockers =
     (let status_name = lower (get_or (emb_status_name wp) [])
      in if str_in ''blocked'' status_name
           then blockers @
                [\<lparr> b_id = wp_id wp, b_subject = subject wp,
                   b_assignee = get_or (emb_assignee_name wp) ''Unassigned'',
                   b_status = emb_status_name wp,
                   b_reason = ''Status marked as blocked'' \<rparr>]
         else blockers)"

definition detect_blockers :: "work_package list \<Rightarrow> 'r \<Rightarrow> blocker list" where
  "detect_blockers work_packages relations = fold blocker_wp work_packages []"

subsection \<open>format_weekly_report_markdown: the status lines\<close>

text \<open>
  The local variable \<open>status\<close> of \<open>format_weekly_report_markdown\<close>. It is set to one of
  three literals (source lines 252 to 257), each a coloured symbol and the words
  \<open>Off track\<close>, \<open>At risk\<close> or \<open>On track\<close>, and printed after \<open>Progress vs Sprint Goal\<close>
  (line 259). The loop over the de-scoped group (lines 320 to 324) assigns the status
  name of each of its work packages to the same variable, and the appendix prints the
  variable again (line 387). In between, the table of impediments (lines 350 and 351)
  slices the subject of every blocker, which raises \<open>TypeError\<close> for a blocker without
  a subject. Nothing else in the function raises on the data modelled here.

  \<open>format_weekly_report_markdown_status\<close> is the function reduced to these lines: it
  returns the two values of \<open>status\<close> that the report prints, or the exception.
\<close>

datatype indicator = Off_track | At_risk | On_track

datatype status_value = Indicator indicator | Status_name string

record status_lines =
  progress_status :: status_value
  appendix_status :: status_value

definition format_weekly_report_markdown_status ::
  "work_package list \<Rightarrow> time_entry list \<Rightarrow> 'r \<Rightarrow> exn + status_lines" where
  "format_weekly_report_markdown_status work_packages time_entries relations =
     (let mt = calculate_metrics work_packages time_entries;
          grouped_wps = group_by_status work_packages;
          blockers = detect_blockers work_packages relations;
          status = Indicator (if blocked_count mt > 0 then Off_track
                              else if done_count mt < in_progress_count mt then At_risk
                              else On_track);
          progress = status;
          status = fold (\<lambda>wp st. Status_name (get_or (emb_status_name wp) ''Unknown''))
                     (g_de_scoped grouped_wps) status
      in if list_ex (\<lambda>blocker. b_subject blocker = None) blockers
           then Inl ''TypeError''
         else Inr \<lparr> progress_status = progress, appendix_status = status \<rparr>)"

section \<open>Dates and times\<close>

text \<open>
  A naive \<open>datetime\<close>: the seven fields Python keeps. Two naive values are compared
  field by field from the year down, which is the order of the list \<open>dt_fields\<close>.
\<close>

record datetime =
  year :: nat
  month :: nat
  day :: nat
  hour :: nat
  minute :: nat
  second :: nat
  microsecond :: nat

definition dt_fields :: "datetime \<Rightarrow> nat list" where
  "dt_fields d = [year d, month d, day d, hour d, minute d, second d, microsecond d]"

fun lex_le :: "nat list \<Rightarrow> nat list \<Rightarrow> bool" where
  "lex_le [] ys = True"
| "lex_le (x # xs) [] = False"
| "lex_le (x # xs) (y # ys) = (x < y \<or> (x = y \<and> lex_le xs ys))"

text \<open>\<open>a <= b\<close> and \<open>a > b\<close> on naive datetimes.\<close>

definition dt_le :: "datetime \<Rightarrow> datetime \<Rightarrow> bool" where
  "dt_le a b = lex_le (dt_fields a) (dt_fields b)"

definition dt_gt :: "datetime \<Rightarrow> datetime \<Rightarrow> bool" where
  "dt_gt a b = (\<not> lex_le (dt_fields a) (dt_fields b))"

definition is_leap :: "nat \<Rightarrow> bool" where
  "is_leap y = (y mod 4 = 0 \<and> (y mod 100 \<noteq> 0 \<or> y mod 400 = 0))"

definition days_in_month :: "nat \<Rightarrow> nat \<Rightarrow> nat" where
  "days_in_month y m =
     (if m = 2 then (if is_leap y then 29 else 28)
      else if m = 4 \<or> m = 6 \<or> m = 9 \<or> m = 11 then 30
      else 31)"

text \<open>
  \<open>d - timedelta(days=n)\<close>, one day at a time; the time of day is kept. The calendar
  starts on 0001-01-01, and a result before that day is Python's \<open>OverflowError\<close>,
  \<open>None\<close> here.
\<close>

definition prev_day :: "datetime \<Rightarrow> datetime option" where
  "prev_day d =
     (if 1 < day d then Some (d\<lparr>day := day d - 1\<rparr>)
      else if 1 < month d
        then Some (d\<lparr>month := month d - 1, day := days_in_month (year d) (month d - 1)\<rparr>)
      else if 1 < year d then Some (d\<lparr>year := year d - 1, month := 12, day := 31\<rparr>)
      else None)"

fun minus_days :: "nat \<Rightarrow> datetime \<Rightarrow> datetime option" where
  "minus_days 0 d = Some d"
| "minus_days (Suc n) d = (case prev_day d of None \<Rightarrow> None | Some p \<Rightarrow> minus_days n p)"

subsection \<open>Reading decimal numbers\<close>

definition digit :: "char \<Rightarrow> nat option" where
  "digit c = map_of (zip ''0123456789'' [0, 1, 2, 3, 4, 5, 6, 7, 8, 9]) c"

fun digits :: "string \<Rightarrow> nat \<Rightarrow> nat option" where
  "digits [] acc = Some acc"
| "digits (c # cs) acc =
     (case digit c of None \<Rightarrow> None | Some v \<Rightarrow> digits cs (10 * acc + v))"

text \<open>A non-empty run of ASCII digits, of length between \<open>lo\<close> and \<open>hi\<close>.\<close>

definition number :: "nat \<Rightarrow> nat \<Rightarrow> string \<Rightarrow> nat option" where
  "number lo hi s = (if lo \<le> length s \<and> length s \<le> hi \<and> s \<noteq> [] then digits s 0 else None)"

fun split_on :: "char \<Rightarrow> string \<Rightarrow> string list" where
  "split_on sep [] = [[]]"
| "split_on sep (c # cs) =
     (if c = sep then [] # split_on sep cs
      else (case split_on sep cs of
              [] \<Rightarrow> [[c]]
            | w # ws \<Rightarrow> (c # w) # ws))"

subsection \<open>datetime.strptime(s, "%Y-%m-%d")\<close>

text \<open>
  The format has three directives separated by \<open>-\<close>, and the whole string must match:
  \<open>%Y\<close> is four digits, \<open>%m\<close> is one or two digits with a value from 1 to 12, \<open>%d\<close>
  is one or two digits with a value from 1 to 31, or a space and one digit from 1 to 9.
  The year 0 and a day the month does not have are rejected when the date is built.
  Every failure is a \<open>ValueError\<close>, \<open>None\<close> here. The result is midnight of the day.

  The entry point takes the library's parser as a parameter \<open>strptime\<close>, of type
  \<open>date_parser\<close>. \<open>strptime_ymd\<close> is that parser on strings of ASCII characters (the
  library also reads the decimal digits of other scripts); it is used where a statement
  needs a concrete parser.
\<close>

type_synonym date_parser = "string \<Rightarrow> datetime option"

definition day_token :: "string \<Rightarrow> nat option" where
  "day_token s =
     (case s of
        [c, d] \<Rightarrow> (if c = CHR '' '' then (if d = CHR ''0'' then None else digit d)
                   else number 1 2 s)
      | _ \<Rightarrow> number 1 2 s)"

definition strptime_ymd :: date_parser where
  "strptime_ymd s =
     (case split_on CHR ''-'' s of
        [ys, ms, ds] \<Rightarrow>
          (case (number 4 4 ys, number 1 2 ms, day_token ds) of
             (Some y, Some m, Some d) \<Rightarrow>
               (if 1 \<le> y \<and> 1 \<le> m \<and> m \<le> 12 \<and> 1 \<le> d \<and> d \<le> days_in_month y m
                then Some \<lparr> year = y, month = m, day = d, hour = 0, minute = 0,
                            second = 0, microsecond = 0 \<rparr>
                else None)
           | _ \<Rightarrow> None)
      | _ \<Rightarrow> None)"

subsection \<open>datetime.fromisoformat\<close>

text \<open>
  The relevance filter reads a timestamp \<open>s\<close> with
  \<open>datetime.fromisoformat(s.replace('Z', '+00:00')).replace(tzinfo=None)\<close>. The
  library's parser is a parameter \<open>fromisoformat\<close> of the filter, of type \<open>iso_parser\<close>: it
  returns the fields of the parsed value with the offset dropped (which is what
  \<open>replace(tzinfo=None)\<close> does: the clock time is kept, not converted), or \<open>None\<close>
  when the library raises \<open>ValueError\<close>.

  \<open>iso_basic\<close> is the parser on the timestamps the tracker sends,
  \<open>YYYY-MM-DDTHH:MM:SS\<close>, then an optional fraction of three or six digits, then
  nothing or an offset \<open>+HH:MM\<close> or \<open>-HH:MM\<close>; it rejects everything else. It is used where a statement needs a concrete parser.
\<close>

type_synonym iso_parser = "string \<Rightarrow> datetime option"

definition replace_Z :: "string \<Rightarrow> string" where
  "replace_Z s = concat (map (\<lambda>c. if c = CHR ''Z'' then ''+00:00'' else [c]) s)"

definition offset_ok :: "string \<Rightarrow> bool" where
  "offset_ok s =
     (s = [] \<or>
      (length s = 6 \<and> (hd s = CHR ''+'' \<or> hd s = CHR ''-'') \<and> s ! 3 = CHR '':''
       \<and> (case (number 2 2 (take 2 (drop 1 s)), number 2 2 (drop 4 s)) of
             (Some h, Some m) \<Rightarrow> h < 24 \<and> m < 60
           | _ \<Rightarrow> False)))"

text \<open>
  What follows the seconds: nothing, or \<open>.\<close> and three or six digits. The result is
  the microseconds and the rest of the string.
\<close>

definition fraction_of :: "string \<Rightarrow> (nat \<times> string) option" where
  "fraction_of r =
     (if r \<noteq> [] \<and> hd r = CHR ''.''
      then
        (let ds = takeWhile (\<lambda>c. digit c \<noteq> None) (tl r)
         in if length ds = 3
              then (case digits ds 0 of None \<Rightarrow> None | Some n \<Rightarrow> Some (n * 1000, drop 4 r))
            else if length ds = 6
              then (case digits ds 0 of None \<Rightarrow> None | Some n \<Rightarrow> Some (n, drop 7 r))
            else None)
      else Some (0, r))"

definition iso_basic :: iso_parser where
  "iso_basic s =
     (if length s < 19 \<or> s ! 4 \<noteq> CHR ''-'' \<or> s ! 7 \<noteq> CHR ''-'' \<or> s ! 10 \<noteq> CHR ''T''
         \<or> s ! 13 \<noteq> CHR '':'' \<or> s ! 16 \<noteq> CHR '':''
      then None
      else
        (case (number 4 4 (take 4 s), number 2 2 (take 2 (drop 5 s)),
               number 2 2 (take 2 (drop 8 s)), number 2 2 (take 2 (drop 11 s)),
               number 2 2 (take 2 (drop 14 s)), number 2 2 (take 2 (drop 17 s)),
               fraction_of (drop 19 s)) of
           (Some y, Some mo, Some d, Some h, Some mi, Some sec, Some (us, off)) \<Rightarrow>
             (if 1 \<le> y \<and> 1 \<le> mo \<and> mo \<le> 12 \<and> 1 \<le> d \<and> d \<le> days_in_month y mo
                 \<and> h < 24 \<and> mi < 60 \<and> sec < 60 \<and> offset_ok off
              then Some \<lparr> year = y, month = mo, day = d, hour = h, minute = mi,
                          second = sec, microsecond = us \<rparr>
              else None)
         | _ \<Rightarrow> None))"

section \<open>weekly_reports.py\<close>

subsection \<open>The relevance filter of \<open>_generate_weekly_report_impl\<close>\<close>

definition closed_status_keywords :: "string list" where
  "closed_status_keywords = [''closed'', ''done'', ''resolved'', ''completed'', ''finished'']"

text \<open>\<open>is_closed_status\<close> of source lines 143 and 145.\<close>

definition is_closed_status :: "work_package \<Rightarrow> bool" where
  "is_closed_status wp =
     (let status_name = lower (get_or (emb_status_name wp) [])
      in list_ex (\<lambda>keyword. str_in keyword status_name) closed_status_keywords)"

text \<open>
  \<open>lo <= datetime.fromisoformat(s.replace('Z', '+00:00')).replace(tzinfo=None) <= hi\<close>;
  \<open>None\<close> when the parser raises.
\<close>

definition in_range :: "iso_parser \<Rightarrow> datetime \<Rightarrow> datetime \<Rightarrow> string \<Rightarrow> bool option" where
  "in_range fromisoformat lo hi s =
     (case fromisoformat (replace_Z s) of
        None \<Rightarrow> None
      | Some t \<Rightarrow> Some (dt_le lo t \<and> dt_le t hi))"

text \<open>\<open>wp.get('closedOn', '') or wp.get('closedAt', '')\<close>.\<close>

definition closed_on_of :: "work_package \<Rightarrow> string" where
  "closed_on_of wp =
     (if get_or (closedOn wp) [] \<noteq> [] then get_or (closedOn wp) []
      else get_or (closedAt wp) [])"

text \<open>
  The body of the \<open>try\<close> (source lines 148 to 181) for one work package: \<open>Some True\<close>
  when the work package is appended, \<open>Some False\<close> when the body ends without
  appending it, \<open>None\<close> when an exception is raised.
\<close>

definition relevance_try ::
  "iso_parser \<Rightarrow> datetime \<Rightarrow> datetime \<Rightarrow> work_package \<Rightarrow> bool option" where
  "relevance_try fromisoformat from_dt to_dt wp =
     (let updated_at = get_or (updatedAt wp) [];
          created_at = get_or (createdAt wp) []
      in case (if updated_at \<noteq> [] then in_range fromisoformat from_dt to_dt updated_at
               else Some False) of
           None \<Rightarrow> None
         | Some True \<Rightarrow> Some True
         | Some False \<Rightarrow>
        (case (if created_at \<noteq> [] then in_range fromisoformat from_dt to_dt created_at
               else Some False) of
           None \<Rightarrow> None
         | Some True \<Rightarrow> Some True
         | Some False \<Rightarrow>
        (if is_closed_status wp
         then
           (case (if updated_at \<noteq> []
                  then (case fromisoformat (replace_Z updated_at) of
                          None \<Rightarrow> None
                        | Some updated_dt \<Rightarrow>
                            (case minus_days 30 to_dt of
                               None \<Rightarrow> None
                             | Some cutoff_date \<Rightarrow>
                                 Some (dt_le cutoff_date updated_dt \<and> dt_le updated_dt to_dt)))
                  else Some False) of
              None \<Rightarrow> None
            | Some True \<Rightarrow> Some True
            | Some False \<Rightarrow>
                (let closed_on = closed_on_of wp
                 in if closed_on \<noteq> [] then in_range fromisoformat from_dt to_dt closed_on
                    else Some False))
         else Some False)))"

text \<open>
  One pass of the loop with its \<open>except\<close> (source lines 183 to 188): after an
  exception the work package is kept only when its status is a closed one.
\<close>

definition is_relevant :: "iso_parser \<Rightarrow> datetime \<Rightarrow> datetime \<Rightarrow> work_package \<Rightarrow> bool" where
  "is_relevant fromisoformat from_dt to_dt wp =
     (case relevance_try fromisoformat from_dt to_dt wp of
        Some appended \<Rightarrow> appended
      | None \<Rightarrow> is_closed_status wp)"

text \<open>The loop of source lines 140 to 188: the work packages appended, in order.\<close>

definition relevant_work_packages ::
  "iso_parser \<Rightarrow> datetime \<Rightarrow> datetime \<Rightarrow> work_package list \<Rightarrow> work_package list" where
  "relevant_work_packages fromisoformat from_dt to_dt all_work_packages =
     filter (is_relevant fromisoformat from_dt to_dt) all_work_packages"

subsection \<open>The client\<close>

text \<open>
  The tracker's client is outside this code. An operation returns its result or raises;
  an exception is \<open>Inl\<close> of its message. A page of work packages is an envelope:
  \<open>env_elements\<close> is \<open>wp_result['_embedded']['elements']\<close> (the empty list when the
  key is absent) and \<open>env_total\<close> is \<open>wp_result['total']\<close> (0 when absent). The
  listing is always asked with the filter \<open>status "*"\<close>, which is not a parameter here.
  For memberships, time entries and relations the result is the list of elements.
\<close>

record 'a envelope =
  env_elements :: "'a list"
  env_total :: int

record ('p, 'm, 'r) client =
  get_project :: "int \<Rightarrow> exn + 'p"
  get_work_packages :: "int \<Rightarrow> nat \<Rightarrow> nat \<Rightarrow> exn + work_package envelope"
  get_memberships :: "int \<Rightarrow> exn + 'm list"
  get_time_entries :: "string \<Rightarrow> string \<Rightarrow> int \<Rightarrow> exn + time_entry list"
  get_relations :: "int \<Rightarrow> exn + 'r list"

text \<open>The calls made to the client, in order.\<close>

datatype request =
    Get_project int
  | Get_work_packages int nat nat
  | Get_memberships int
  | Get_time_entries string string int
  | Get_relations int

subsection \<open>\<open>_fetch_all_project_work_packages\<close>\<close>

text \<open>
  The \<open>while True\<close> loop (source lines 67 to 87). \<open>get offset page_size\<close> is the call
  to the client for one page. The state of the loop is the offset and the list
  accumulated so far; \<open>offsets\<close> records the offset of every request made. The result
  is the offsets requested and either the list returned or the exception that a
  request raised. A loop that never ends has the value \<open>None\<close>.
\<close>

partial_function (option) fetch_loop ::
  "(nat \<Rightarrow> nat \<Rightarrow> exn + 'a envelope) \<Rightarrow> nat \<Rightarrow> nat \<Rightarrow> nat list \<Rightarrow> 'a list
     \<Rightarrow> (nat list \<times> (exn + 'a list)) option" where
  "fetch_loop get page_size offset offsets all_work_packages =
     (case get offset page_size of
        Inl e \<Rightarrow> Some (offsets @ [offset], Inl e)
      | Inr wp_result \<Rightarrow>
          if env_elements wp_result = []
            then Some (offsets @ [offset], Inr all_work_packages)
          else if int offset + int page_size \<ge> env_total wp_result
            then Some (offsets @ [offset], Inr (all_work_packages @ env_elements wp_result))
          else fetch_loop get page_size (offset + page_size) (offsets @ [offset])
                 (all_work_packages @ env_elements wp_result))"

definition fetch_all_project_work_packages ::
  "(nat \<Rightarrow> nat \<Rightarrow> exn + 'a envelope) \<Rightarrow> (nat list \<times> (exn + 'a list)) option" where
  "fetch_all_project_work_packages get = fetch_loop get 500 0 [] []"

text \<open>
  Modelled from the spec: the collaborator's paginated listing, which is not part of the
  sources. It holds the records \<open>recs\<close>; a request for \<open>page_size\<close> records from
  \<open>offset\<close> returns an envelope with those records and the total count.
\<close>

definition paged_server :: "'a list \<Rightarrow> nat \<Rightarrow> nat \<Rightarrow> exn + 'a envelope" where
  "paged_server recs offset page_size =
     Inr \<lparr> env_elements = take page_size (drop offset recs), env_total = int (length recs) \<rparr>"

subsection \<open>\<open>_generate_weekly_report_impl\<close>\<close>

record report_input =
  project_id :: int
  from_date :: string
  to_date :: string
  sprint_goal :: "string option"
  team_name :: "string option"
  format :: string

text \<open>
  The relations of the first ten relevant work packages (source lines 224 to 236). A
  work package without an id raises \<open>KeyError\<close> before the call; that exception and
  any exception of the call are swallowed.
\<close>

definition relations_step ::
  "(int \<Rightarrow> exn + 'r list) \<Rightarrow> work_package \<Rightarrow> request list \<times> 'r list \<Rightarrow> request list \<times> 'r list" where
  "relations_step get wp st =
     (case wp_id wp of
        None \<Rightarrow> st
      | Some i \<Rightarrow>
          (case get i of
             Inl e \<Rightarrow> (fst st @ [Get_relations i], snd st)
           | Inr wp_relations \<Rightarrow> (fst st @ [Get_relations i], snd st @ wp_relations)))"

definition collect_relations ::
  "(int \<Rightarrow> exn + 'r list) \<Rightarrow> work_package list \<Rightarrow> request list \<times> 'r list" where
  "collect_relations get work_packages = fold (relations_step get) (take 10 work_packages) ([], [])"

text \<open>
  Source lines 113 to 263, after the dates are validated: the calls to the client and
  the rendering. The two renderers, \<open>format_report_data_json\<close> with \<open>json.dumps\<close> and
  \<open>format_weekly_report_markdown\<close>, are parameters: the text they build is not
  modelled, and either may raise. The result is the requests made and the report or
  the exception raised.
\<close>

definition collect_and_render ::
  "('p, 'm, 'r) client \<Rightarrow> iso_parser
   \<Rightarrow> ('p \<Rightarrow> work_package list \<Rightarrow> time_entry list \<Rightarrow> 'm list \<Rightarrow> 'r list \<Rightarrow> exn + string)
   \<Rightarrow> ('p \<Rightarrow> work_package list \<Rightarrow> time_entry list \<Rightarrow> 'm list \<Rightarrow> report_input \<Rightarrow> 'r list
        \<Rightarrow> exn + string)
   \<Rightarrow> report_input \<Rightarrow> datetime \<Rightarrow> datetime \<Rightarrow> (request list \<times> (exn + string)) option" where
  "collect_and_render client fromisoformat render_json render_markdown inp from_dt to_dt =
     (let pid = project_id inp
      in case get_project client pid of
           Inl e \<Rightarrow> Some ([Get_project pid], Inl e)
         | Inr project \<Rightarrow>
        (case fetch_all_project_work_packages (get_work_packages client pid) of
           None \<Rightarrow> None
         | Some (offsets, fetched) \<Rightarrow>
        (let reqs = Get_project pid # map (\<lambda>offset. Get_work_packages pid offset 500) offsets
         in case fetched of
              Inl e \<Rightarrow> Some (reqs, Inl e)
            | Inr all_work_packages \<Rightarrow>
        (let work_packages = relevant_work_packages fromisoformat from_dt to_dt all_work_packages;
             reqs = reqs @ [Get_memberships pid]
         in case get_memberships client pid of
              Inl e \<Rightarrow> Some (reqs, Inl e)
            | Inr members \<Rightarrow>
        (let reqs = reqs @ [Get_time_entries (from_date inp) (to_date inp) pid]
         in case get_time_entries client (from_date inp) (to_date inp) pid of
              Inl e \<Rightarrow> Some (reqs, Inl e)
            | Inr time_entries \<Rightarrow>
        (let rel = collect_relations (get_relations client) work_packages;
             reqs = reqs @ fst rel;
             relations = snd rel
         in if lower (format inp) = ''json''
              then Some (reqs, render_json project work_packages time_entries members relations)
            else Some (reqs, render_markdown project work_packages time_entries members inp
                              relations)))))))"

text \<open>
  The body of the outer \<open>try\<close> (source lines 101 to 263). \<open>get_client\<close> is the result
  of the call \<open>get_client()\<close>; \<open>format_error\<close>, which is not part of the sources, is a
  parameter, and so is \<open>strptime\<close>, which reads a date in the format \<open>%Y-%m-%d\<close>. \<open>Inr\<close> is the string returned, \<open>Inl\<close> an exception raised.
\<close>

definition report_body ::
  "(string \<Rightarrow> string) \<Rightarrow> exn + ('p, 'm, 'r) client \<Rightarrow> date_parser \<Rightarrow> iso_parser
   \<Rightarrow> ('p \<Rightarrow> work_package list \<Rightarrow> time_entry list \<Rightarrow> 'm list \<Rightarrow> 'r list \<Rightarrow> exn + string)
   \<Rightarrow> ('p \<Rightarrow> work_package list \<Rightarrow> time_entry list \<Rightarrow> 'm list \<Rightarrow> report_input \<Rightarrow> 'r list
        \<Rightarrow> exn + string)
   \<Rightarrow> report_input \<Rightarrow> (request list \<times> (exn + string)) option" where
  "report_body format_error get_client strptime fromisoformat render_json render_markdown inp =
     (case get_client of
        Inl e \<Rightarrow> Some ([], Inl e)
      | Inr client \<Rightarrow>
          (case strptime (from_date inp) of
             None \<Rightarrow> Some ([], Inr (format_error ''Invalid date format. Use YYYY-MM-DD''))
           | Some from_dt \<Rightarrow>
          (case strptime (to_date inp) of
             None \<Rightarrow> Some ([], Inr (format_error ''Invalid date format. Use YYYY-MM-DD''))
           | Some to_dt \<Rightarrow>
               if dt_gt from_dt to_dt
                 then Some ([], Inr (format_error ''from_date must be before or equal to to_date''))
               else collect_and_render client fromisoformat render_json render_markdown inp
                      from_dt to_dt)))"

text \<open>
  The function with its \<open>except Exception\<close> (source lines 265 and 266): the requests
  made and the string returned.
\<close>

definition generate_weekly_report_impl ::
  "(string \<Rightarrow> string) \<Rightarrow> exn + ('p, 'm, 'r) client \<Rightarrow> date_parser \<Rightarrow> iso_parser
   \<Rightarrow> ('p \<Rightarrow> work_package list \<Rightarrow> time_entry list \<Rightarrow> 'm list \<Rightarrow> 'r list \<Rightarrow> exn + string)
   \<Rightarrow> ('p \<Rightarrow> work_package list \<Rightarrow> time_entry list \<Rightarrow> 'm list \<Rightarrow> report_input \<Rightarrow> 'r list
        \<Rightarrow> exn + string)
   \<Rightarrow> report_input \<Rightarrow> (request list \<times> string) option" where
  "generate_weekly_report_impl format_error get_client strptime fromisoformat render_json render_markdown
       inp =
     (case report_body format_error get_client strptime fromisoformat render_json render_markdown inp of
        None \<Rightarrow> None
      | Some (reqs, Inl e) \<Rightarrow>
          Some (reqs, format_error (''Failed to generate weekly report: '' @ e))
      | Some (reqs, Inr report) \<Rightarrow> Some (reqs, report))"

section \<open>Notions used in the statements\<close>

text \<open>
  \<open>status_label\<close> is the label both \<open>calculate_metrics\<close> and \<open>group_by_status\<close>
  classify: the lowercased embedded status name, or the lowercased title of the status
  link when the former is empty or \<open>unknown\<close>. The keyword tests name the conditions of
  the branches of the two functions.
\<close>

definition status_label :: "work_package \<Rightarrow> string" where
  "status_label wp =
     (let status_name = lower (get_or (emb_status_name wp) [])
      in if status_name = [] \<or> status_name = ''unknown''
         then lower (get_or (link_status_title wp) [])
         else status_name)"

definition done_kw :: "string \<Rightarrow> bool" where
  "done_kw s = (str_in ''closed'' s \<or> str_in ''done'' s \<or> str_in ''resolved'' s
                \<or> str_in ''completed'' s \<or> str_in ''finished'' s)"

definition progress_kw :: "string \<Rightarrow> bool" where
  "progress_kw s = (str_in ''progress'' s \<or> str_in ''development'' s
                    \<or> str_in ''implementing'' s)"

definition de_scoped_kw :: "string \<Rightarrow> bool" where
  "de_scoped_kw s = (str_in ''rejected'' s \<or> str_in ''cancelled'' s)"

definition planned_kw :: "string \<Rightarrow> bool" where
  "planned_kw s = (str_in ''new'' s \<or> str_in ''open'' s \<or> str_in ''specified'' s
                   \<or> str_in ''to do'' s)"

text \<open>The two tests of the type label in \<open>calculate_metrics\<close> (source lines 63 to 66).\<close>

definition bug_type :: "work_package \<Rightarrow> bool" where
  "bug_type wp =
     (let wp_type = lower (get_or (emb_type_name wp) [])
      in str_in ''bug'' wp_type \<or> str_in ''defect'' wp_type)"

definition feature_type :: "work_package \<Rightarrow> bool" where
  "feature_type wp =
     (let wp_type = lower (get_or (emb_type_name wp) [])
      in str_in ''feature'' wp_type \<or> str_in ''story'' wp_type \<or> str_in ''task'' wp_type)"

text \<open>
  A well-formed \<open>YYYY-MM-DD\<close> date, in the words of the specification: four digits, two
  digits and two digits, separated by \<open>-\<close>, that name a day of the calendar.
\<close>

definition well_formed_ymd :: "string \<Rightarrow> bool" where
  "well_formed_ymd s =
     (length s = 10 \<and> s ! 4 = CHR ''-'' \<and> s ! 7 = CHR ''-''
      \<and> (case (number 4 4 (take 4 s), number 2 2 (take 2 (drop 5 s)), number 2 2 (drop 8 s)) of
            (Some y, Some m, Some d) \<Rightarrow>
              1 \<le> y \<and> 1 \<le> m \<and> m \<le> 12 \<and> 1 \<le> d \<and> d \<le> days_in_month y m
          | _ \<Rightarrow> False))"

section \<open>Example data\<close>

text \<open>A work package with an id and a subject and no other key.\<close>

definition base_wp :: work_package where
  "base_wp = \<lparr> wp_id = Some 1, subject = Some ''Example'', emb_status_name = None,
     link_status_title = None, emb_type_name = None, emb_assignee_name = None,
     updatedAt = None, createdAt = None, closedOn = None, closedAt = None \<rparr>"


text \<open>The window from 2025-12-02 to 2025-12-08, as \<open>strptime\<close> reads its two dates.\<close>

definition example_from :: datetime where
  "example_from = \<lparr> year = 2025, month = 12, day = 2, hour = 0, minute = 0, second = 0,
                      microsecond = 0 \<rparr>"

definition example_to :: datetime where
  "example_to = \<lparr> year = 2025, month = 12, day = 8, hour = 0, minute = 0, second = 0,
                    microsecond = 0 \<rparr>"

text \<open>A client whose every call raises.\<close>

definition example_client :: "(unit, unit, unit) client" where
  "example_client = \<lparr> get_project = (\<lambda>pid. Inl ''offline''),
                        get_work_packages = (\<lambda>pid offset page_size. Inl ''offline''),
                        get_memberships = (\<lambda>pid. Inl ''offline''),
                        get_time_entries = (\<lambda>from_date to_date pid. Inl ''offline''),
                        get_relations = (\<lambda>i. Inl ''offline'') \<rparr>"

text \<open>A client of a project that has no work packages, members or time entries.\<close>

definition empty_project_client :: "(unit, unit, unit) client" where
  "empty_project_client =
     \<lparr> get_project = (\<lambda>pid. Inr ()),
       get_work_packages = (\<lambda>pid offset page_size. Inr \<lparr> env_elements = [], env_total = 0 \<rparr>),
       get_memberships = (\<lambda>pid. Inr []),
       get_time_entries = (\<lambda>from_date to_date pid. Inr []),
       get_relations = (\<lambda>i. Inr []) \<rparr>"

text \<open>An error format and two renderers.\<close>

definition example_format_error :: "string \<Rightarrow> string" where
  "example_format_error message = ''Error: '' @ message"

definition example_render_json ::
  "unit \<Rightarrow> work_package list \<Rightarrow> time_entry list \<Rightarrow> unit list \<Rightarrow> unit list \<Rightarrow> exn + string" where
  "example_render_json project work_packages time_entries members relations = Inr ''{}''"

definition example_render_markdown ::
  "unit \<Rightarrow> work_package list \<Rightarrow> time_entry list \<Rightarrow> unit list \<Rightarrow> report_input \<Rightarrow> unit list
     \<Rightarrow> exn + string" where
  "example_render_markdown project work_packages time_entries members inp relations =
     Inr ''# WEEKLY REPORT''"

definition example_input :: "string \<Rightarrow> string \<Rightarrow> report_input" where
  "example_input f t = \<lparr> project_id = 5, from_date = f, to_date = t, sprint_goal = None,
                          team_name = None, format = ''markdown'' \<rparr>"

section \<open>Properties of the classification\<close>

lemmas eval_defs = calculate_metrics_def metrics_init_def metrics_wp_def metrics_status_def
  metrics_type_def metrics_te_def group_by_status_def groups_init_def group_wp_def
  detect_blockers_def blocker_wp_def base_wp_def get_or_def lower_def lower_char_def
  status_label_def done_kw_def progress_kw_def de_scoped_kw_def planned_kw_def
  bug_type_def feature_type_def format_weekly_report_markdown_status_def

subsection \<open>The two classifiers, branch by branch\<close>

lemma metrics_status_cases:
  "metrics_status wp m =
     (let s = status_label wp
      in if s = [] \<or> s = ''unknown'' then m\<lparr>planned_count := planned_count m + 1\<rparr>
         else if done_kw s then m\<lparr>done_count := done_count m + 1\<rparr>
         else if progress_kw s then m\<lparr>in_progress_count := in_progress_count m + 1\<rparr>
         else if str_in ''blocked'' s then m\<lparr>blocked_count := blocked_count m + 1\<rparr>
         else m\<lparr>planned_count := planned_count m + 1\<rparr>)"
  unfolding metrics_status_def status_label_def done_kw_def progress_kw_def Let_def
  by (simp only: if_cancel)

lemma group_wp_cases:
  "group_wp wp g =
     (let s = status_label wp
      in if s = [] \<or> s = ''unknown'' then g\<lparr>g_planned := g_planned g @ [wp]\<rparr>
         else if done_kw s then g\<lparr>g_done := g_done g @ [wp]\<rparr>
         else if progress_kw s then g\<lparr>g_in_progress := g_in_progress g @ [wp]\<rparr>
         else if str_in ''blocked'' s then g\<lparr>g_blocked := g_blocked g @ [wp]\<rparr>
         else if de_scoped_kw s then g\<lparr>g_de_scoped := g_de_scoped g @ [wp]\<rparr>
         else g\<lparr>g_planned := g_planned g @ [wp]\<rparr>)"
  unfolding group_wp_def status_label_def done_kw_def progress_kw_def de_scoped_kw_def Let_def
  by (simp only: if_cancel)

lemma fold_metrics_te_counts:
  "total_wps (fold metrics_te tes m) = total_wps m \<and>
   done_count (fold metrics_te tes m) = done_count m \<and>
   in_progress_count (fold metrics_te tes m) = in_progress_count m \<and>
   planned_count (fold metrics_te tes m) = planned_count m \<and>
   blocked_count (fold metrics_te tes m) = blocked_count m \<and>
   bug_count (fold metrics_te tes m) = bug_count m \<and>
   feature_count (fold metrics_te tes m) = feature_count m"
  by (induction tes arbitrary: m) (simp_all add: metrics_te_def Let_def)

lemma metrics_type_fields:
  "total_wps (metrics_type wp m) = total_wps m \<and>
   done_count (metrics_type wp m) = done_count m \<and>
   in_progress_count (metrics_type wp m) = in_progress_count m \<and>
   planned_count (metrics_type wp m) = planned_count m \<and>
   blocked_count (metrics_type wp m) = blocked_count m"
  by (simp add: metrics_type_def Let_def)

lemma metrics_status_fields:
  "total_wps (metrics_status wp m) = total_wps m \<and>
   bug_count (metrics_status wp m) = bug_count m \<and>
   feature_count (metrics_status wp m) = feature_count m"
  by (simp add: metrics_status_cases Let_def)

lemma metrics_wp_total: "total_wps (metrics_wp wp m) = total_wps m"
  by (simp add: metrics_wp_def metrics_type_fields metrics_status_fields)

lemma fold_metrics_wp_total: "total_wps (fold metrics_wp wps m) = total_wps m"
  by (induction wps arbitrary: m) (simp_all add: metrics_wp_total)

subsection \<open>Metrics conservation\<close>

lemma metrics_wp_status_sum:
  "done_count (metrics_wp wp m) + in_progress_count (metrics_wp wp m)
     + planned_count (metrics_wp wp m) + blocked_count (metrics_wp wp m)
   = done_count m + in_progress_count m + planned_count m + blocked_count m + 1"
  by (simp add: metrics_wp_def metrics_type_fields metrics_status_cases Let_def)

lemma fold_metrics_wp_status_sum:
  "done_count (fold metrics_wp wps m) + in_progress_count (fold metrics_wp wps m)
     + planned_count (fold metrics_wp wps m) + blocked_count (fold metrics_wp wps m)
   = done_count m + in_progress_count m + planned_count m + blocked_count m + length wps"
proof (induction wps arbitrary: m)
  case Nil
  show ?case by simp
next
  case (Cons wp wps)
  show ?case
    using Cons.IH [of "metrics_wp wp m"] metrics_wp_status_sum [of wp m] by simp
qed

text \<open>
  C7. For every list of work packages and every list of time entries, the four status
  counters add up to \<open>total_wps\<close>, which is the number of work packages. No de-scoped
  count is left out of the sum: the metrics have no de-scoped counter, and a rejected or
  cancelled work package is counted as planned.
\<close>

theorem metrics_conservation:
  "done_count (calculate_metrics wps tes) + in_progress_count (calculate_metrics wps tes)
     + planned_count (calculate_metrics wps tes) + blocked_count (calculate_metrics wps tes)
   = total_wps (calculate_metrics wps tes)
   \<and> total_wps (calculate_metrics wps tes) = length wps"
  using fold_metrics_wp_status_sum [of wps "metrics_init wps"]
  by (simp add: calculate_metrics_def fold_metrics_te_counts fold_metrics_wp_total
      metrics_init_def)

subsection \<open>Counters against groups\<close>

lemma step_consistent:
  "done_count (metrics_wp wp m) + length (g_done g)
     = done_count m + length (g_done (group_wp wp g))
   \<and> in_progress_count (metrics_wp wp m) + length (g_in_progress g)
     = in_progress_count m + length (g_in_progress (group_wp wp g))
   \<and> blocked_count (metrics_wp wp m) + length (g_blocked g)
     = blocked_count m + length (g_blocked (group_wp wp g))
   \<and> planned_count (metrics_wp wp m) + (length (g_planned g) + length (g_de_scoped g))
     = planned_count m + (length (g_planned (group_wp wp g)) + length (g_de_scoped (group_wp wp g)))"
  by (simp add: metrics_wp_def metrics_type_fields metrics_status_cases group_wp_cases Let_def)

lemma fold_consistent:
  "done_count (fold metrics_wp wps m) + length (g_done g)
     = done_count m + length (g_done (fold group_wp wps g))
   \<and> in_progress_count (fold metrics_wp wps m) + length (g_in_progress g)
     = in_progress_count m + length (g_in_progress (fold group_wp wps g))
   \<and> blocked_count (fold metrics_wp wps m) + length (g_blocked g)
     = blocked_count m + length (g_blocked (fold group_wp wps g))
   \<and> planned_count (fold metrics_wp wps m) + (length (g_planned g) + length (g_de_scoped g))
     = planned_count m + (length (g_planned (fold group_wp wps g))
         + length (g_de_scoped (fold group_wp wps g)))"
proof (induction wps arbitrary: m g)
  case Nil
  show ?case by simp
next
  case (Cons wp wps)
  show ?case
    using Cons.IH [of "metrics_wp wp m" "group_wp wp g"] step_consistent [of wp m g]
    by simp
qed

text \<open>
  C2, as the code has it. For every list of work packages, \<open>done_count\<close>,
  \<open>in_progress_count\<close> and \<open>blocked_count\<close> are the sizes of the groups of the same
  name, and \<open>planned_count\<close> is the size of the planned group plus the size of the
  de-scoped group: \<open>calculate_metrics\<close> has no branch for \<open>rejected\<close> and
  \<open>cancelled\<close>, so those work packages fall to its default.
\<close>

theorem metrics_match_groups:
  "done_count (calculate_metrics wps tes) = length (g_done (group_by_status wps))
   \<and> in_progress_count (calculate_metrics wps tes) = length (g_in_progress (group_by_status wps))
   \<and> blocked_count (calculate_metrics wps tes) = length (g_blocked (group_by_status wps))
   \<and> planned_count (calculate_metrics wps tes)
       = length (g_planned (group_by_status wps)) + length (g_de_scoped (group_by_status wps))"
  using fold_consistent [of wps "metrics_init wps" groups_init]
  by (simp add: calculate_metrics_def group_by_status_def fold_metrics_te_counts
      metrics_init_def groups_init_def)

text \<open>
  C2 as stated fails: for the single work package with status \<open>Rejected\<close>, the planned
  counter is 1 and the planned group is empty.
\<close>

theorem planned_count_counterexample:
  "planned_count (calculate_metrics [base_wp\<lparr>emb_status_name := Some ''Rejected''\<rparr>] [])
   \<noteq> length (g_planned (group_by_status [base_wp\<lparr>emb_status_name := Some ''Rejected''\<rparr>]))"
  by (simp add: eval_defs)

subsection \<open>The status indicator\<close>

lemma blocked_count_is_blocked_group:
  "blocked_count (calculate_metrics wps tes) = length (g_blocked (group_by_status wps))"
  using fold_consistent [of wps "metrics_init wps" groups_init]
  by (simp add: calculate_metrics_def group_by_status_def fold_metrics_te_counts
      metrics_init_def groups_init_def)

text \<open>
  C5, as the code has it. Whenever the report is rendered, the status it prints after
  \<open>Progress vs Sprint Goal\<close> is \<open>Off track\<close> exactly when the blocked group of
  \<open>group_by_status\<close> is not empty (the metrics' \<open>blocked_count\<close> is positive);
  otherwise it is \<open>At risk\<close> when \<open>done_count\<close> is less than
  \<open>in_progress_count\<close>, and \<open>On track\<close> otherwise. The list that
  \<open>detect_blockers\<close> returns plays no part. When no work package is de-scoped, the
  appendix prints the same status.
\<close>

theorem status_indicator_rule:
  assumes "format_weekly_report_markdown_status wps tes rels = Inr r"
  shows "progress_status r =
           Indicator
             (if g_blocked (group_by_status wps) \<noteq> [] then Off_track
              else if done_count (calculate_metrics wps tes)
                        < in_progress_count (calculate_metrics wps tes)
                then At_risk
              else On_track)
         \<and> (g_de_scoped (group_by_status wps) = [] \<longrightarrow> appendix_status r = progress_status r)"
proof -
  let ?ind = "Indicator
             (if 0 < blocked_count (calculate_metrics wps tes) then Off_track
              else if done_count (calculate_metrics wps tes)
                        < in_progress_count (calculate_metrics wps tes)
                then At_risk
              else On_track)"
  have r: "r = \<lparr> progress_status = ?ind,
                 appendix_status =
                   fold (\<lambda>wp st. Status_name (get_or (emb_status_name wp) ''Unknown''))
                     (g_de_scoped (group_by_status wps)) ?ind \<rparr>"
    using assms
    by (simp add: format_weekly_report_markdown_status_def Let_def split: if_splits)
  have "progress_status r = ?ind"
    by (subst r) simp
  moreover have "g_de_scoped (group_by_status wps) = [] \<Longrightarrow> appendix_status r = ?ind"
    by (subst r) simp
  ultimately show ?thesis
    by (simp add: blocked_count_is_blocked_group)
qed

theorem status_indicator_rule_witness:
  "format_weekly_report_markdown_status [base_wp\<lparr>emb_status_name := Some ''Blocked''\<rparr>] []
       ([] :: unit list)
     = Inr \<lparr> progress_status = Indicator Off_track, appendix_status = Indicator Off_track \<rparr>
   \<and> g_blocked (group_by_status [base_wp\<lparr>emb_status_name := Some ''Blocked''\<rparr>]) \<noteq> []
   \<and> g_de_scoped (group_by_status [base_wp\<lparr>emb_status_name := Some ''Blocked''\<rparr>]) = []"
  using status_indicator_rule
    [of "[base_wp\<lparr>emb_status_name := Some ''Blocked''\<rparr>]" "[]" "[] :: unit list"
        "\<lparr> progress_status = Indicator Off_track, appendix_status = Indicator Off_track \<rparr>"]
  by (simp add: eval_defs Let_def)

text \<open>
  C5 as stated fails: a work package with status \<open>In progress (blocked)\<close> is a
  blocker for \<open>detect_blockers\<close>, and is counted as in progress by the metrics, so the
  report is rendered with the status \<open>At risk\<close>, not \<open>Off track\<close>.
\<close>

theorem status_indicator_counterexample:
  "detect_blockers [base_wp\<lparr>emb_status_name := Some ''In progress (blocked)''\<rparr>]
      ([] :: unit list) \<noteq> []
   \<and> format_weekly_report_markdown_status
        [base_wp\<lparr>emb_status_name := Some ''In progress (blocked)''\<rparr>] [] ([] :: unit list)
     = Inr \<lparr> progress_status = Indicator At_risk, appendix_status = Indicator At_risk \<rparr>"
  by (simp add: eval_defs Let_def)

text \<open>
  Two inputs outside the rule. With a de-scoped work package the appendix prints that
  work package's status name in place of the indicator; with a blocker that has no
  subject the function raises and there is no report.
\<close>

lemma appendix_status_after_de_scoped:
  "format_weekly_report_markdown_status
     [base_wp\<lparr>emb_status_name := Some ''Blocked''\<rparr>,
      base_wp\<lparr>emb_status_name := Some ''Rejected''\<rparr>] [] ([] :: unit list)
   = Inr \<lparr> progress_status = Indicator Off_track, appendix_status = Status_name ''Rejected'' \<rparr>"
  by (simp add: eval_defs Let_def)

lemma blocker_without_subject_raises:
  "format_weekly_report_markdown_status
     [base_wp\<lparr>emb_status_name := Some ''Blocked'', subject := None\<rparr>] [] ([] :: unit list)
   = Inl ''TypeError''"
  by (simp add: eval_defs Let_def)

subsection \<open>The groups partition the input\<close>

lemma group_wp_other: "g_other (group_wp wp g) = g_other g"
  by (simp add: group_wp_cases Let_def)

lemma fold_group_wp_other: "g_other (fold group_wp wps g) = g_other g"
  by (induction wps arbitrary: g) (simp_all add: group_wp_other)

lemma group_wp_mset:
  "mset (g_done (group_wp wp g)) + mset (g_in_progress (group_wp wp g))
     + mset (g_planned (group_wp wp g)) + mset (g_blocked (group_wp wp g))
     + mset (g_de_scoped (group_wp wp g))
   = mset (g_done g) + mset (g_in_progress g) + mset (g_planned g) + mset (g_blocked g)
     + mset (g_de_scoped g) + {#wp#}"
  by (simp add: group_wp_cases Let_def)

lemma fold_group_wp_mset:
  "mset (g_done (fold group_wp wps g)) + mset (g_in_progress (fold group_wp wps g))
     + mset (g_planned (fold group_wp wps g)) + mset (g_blocked (fold group_wp wps g))
     + mset (g_de_scoped (fold group_wp wps g))
   = mset (g_done g) + mset (g_in_progress g) + mset (g_planned g) + mset (g_blocked g)
     + mset (g_de_scoped g) + mset wps"
proof (induction wps arbitrary: g)
  case Nil
  show ?case by simp
next
  case (Cons wp wps)
  show ?case
    using Cons.IH [of "group_wp wp g"] group_wp_mset [of wp g] by simp
qed

lemma group_wp_planned_mono: "set (g_planned g) \<subseteq> set (g_planned (group_wp wp g))"
  by (auto simp add: group_wp_cases Let_def)

lemma fold_group_wp_planned_mono:
  "set (g_planned g) \<subseteq> set (g_planned (fold group_wp wps g))"
proof (induction wps arbitrary: g)
  case Nil
  show ?case by simp
next
  case (Cons wp wps)
  show ?case
    using Cons.IH [of "group_wp wp g"] group_wp_planned_mono [of g wp] by auto
qed

lemma group_wp_default_planned:
  assumes "\<not> done_kw (status_label wp)" "\<not> progress_kw (status_label wp)"
    "\<not> str_in ''blocked'' (status_label wp)" "\<not> de_scoped_kw (status_label wp)"
  shows "wp \<in> set (g_planned (group_wp wp g))"
  using assms by (simp add: group_wp_cases Let_def)

lemma fold_group_wp_default_planned:
  assumes "wp \<in> set wps"
    "\<not> done_kw (status_label wp)" "\<not> progress_kw (status_label wp)"
    "\<not> str_in ''blocked'' (status_label wp)" "\<not> de_scoped_kw (status_label wp)"
  shows "wp \<in> set (g_planned (fold group_wp wps g))"
  using assms(1)
proof (induction wps arbitrary: g)
  case Nil
  then show ?case by simp
next
  case (Cons x xs)
  show ?case
  proof (cases "wp = x")
    case True
    have "wp \<in> set (g_planned (group_wp wp g))"
      using assms(2-5) by (rule group_wp_default_planned)
    then show ?thesis
      using fold_group_wp_planned_mono [of "group_wp wp g" xs] True by auto
  next
    case False
    then have "wp \<in> set xs" using Cons.prems by simp
    then show ?thesis using Cons.IH [of "group_wp x g"] by simp
  qed
qed

text \<open>
  C6. For every list of work packages: the \<open>other\<close> group is empty; the five groups
  \<open>done\<close>, \<open>in_progress\<close>, \<open>planned\<close>, \<open>blocked\<close> and \<open>de_scoped\<close> together hold
  each work package of the input exactly as often as the input does, so each one is in
  exactly one group; and a work package whose label has none of the keywords of
  \<open>done\<close>, \<open>in_progress\<close>, \<open>blocked\<close> and \<open>de_scoped\<close> (the empty label and
  \<open>unknown\<close> among them) is in the planned group.
\<close>

theorem group_by_status_partition:
  "g_other (group_by_status wps) = []
   \<and> mset (g_done (group_by_status wps)) + mset (g_in_progress (group_by_status wps))
       + mset (g_planned (group_by_status wps)) + mset (g_blocked (group_by_status wps))
       + mset (g_de_scoped (group_by_status wps)) = mset wps
   \<and> (\<forall>wp \<in> set wps.
         \<not> done_kw (status_label wp) \<and> \<not> progress_kw (status_label wp)
         \<and> \<not> str_in ''blocked'' (status_label wp) \<and> \<not> de_scoped_kw (status_label wp)
         \<longrightarrow> wp \<in> set (g_planned (group_by_status wps)))"
proof (intro conjI ballI impI)
  show "g_other (group_by_status wps) = []"
    by (simp add: group_by_status_def fold_group_wp_other groups_init_def)
  show "mset (g_done (group_by_status wps)) + mset (g_in_progress (group_by_status wps))
       + mset (g_planned (group_by_status wps)) + mset (g_blocked (group_by_status wps))
       + mset (g_de_scoped (group_by_status wps)) = mset wps"
    using fold_group_wp_mset [of wps groups_init]
    by (simp add: group_by_status_def groups_init_def)
next
  fix wp
  assume "wp \<in> set wps"
    and "\<not> done_kw (status_label wp) \<and> \<not> progress_kw (status_label wp)
         \<and> \<not> str_in ''blocked'' (status_label wp) \<and> \<not> de_scoped_kw (status_label wp)"
  then show "wp \<in> set (g_planned (group_by_status wps))"
    unfolding group_by_status_def by (intro fold_group_wp_default_planned) simp_all
qed

theorem group_by_status_partition_witness:
  "(let wps = [base_wp\<lparr>emb_status_name := Some ''Triage''\<rparr>, base_wp,
               base_wp\<lparr>emb_status_name := Some ''Unknown''\<rparr>]
    in g_other (group_by_status wps) = []
       \<and> (\<forall>wp \<in> set wps.
             \<not> done_kw (status_label wp) \<and> \<not> progress_kw (status_label wp)
             \<and> \<not> str_in ''blocked'' (status_label wp) \<and> \<not> de_scoped_kw (status_label wp))
       \<and> set wps \<subseteq> set (g_planned (group_by_status wps)))"
  using group_by_status_partition
    [of "[base_wp\<lparr>emb_status_name := Some ''Triage''\<rparr>, base_wp,
          base_wp\<lparr>emb_status_name := Some ''Unknown''\<rparr>]"]
  by (simp add: eval_defs)

subsection \<open>Blockers\<close>

lemma fold_blocker_wp:
  "fold blocker_wp wps acc = acc @
     map (\<lambda>wp. \<lparr> b_id = wp_id wp, b_subject = subject wp,
                 b_assignee = get_or (emb_assignee_name wp) ''Unassigned'',
                 b_status = emb_status_name wp,
                 b_reason = ''Status marked as blocked'' \<rparr>)
         (filter (\<lambda>wp. str_in ''blocked'' (lower (get_or (emb_status_name wp) []))) wps)"
  by (induction wps arbitrary: acc) (simp_all add: blocker_wp_def Let_def)

text \<open>
  C8. For every list of work packages and every relations argument, \<open>detect_blockers\<close>
  returns, in the order of the input, one record for each work package whose embedded
  status name contains \<open>blocked\<close> after lowercasing (the title of the status link is
  not consulted), with the reason \<open>Status marked as blocked\<close>; two calls that differ
  only in the relations return the same list.
\<close>

theorem detect_blockers_exact:
  "detect_blockers wps rels =
     map (\<lambda>wp. \<lparr> b_id = wp_id wp, b_subject = subject wp,
                 b_assignee = get_or (emb_assignee_name wp) ''Unassigned'',
                 b_status = emb_status_name wp,
                 b_reason = ''Status marked as blocked'' \<rparr>)
         (filter (\<lambda>wp. str_in ''blocked'' (lower (get_or (emb_status_name wp) []))) wps)
   \<and> detect_blockers wps rels = detect_blockers wps rels'"
  by (simp add: detect_blockers_def fold_blocker_wp)

subsection \<open>Type counters\<close>

lemma metrics_wp_type_step:
  "bug_count (metrics_wp wp m) = bug_count m + (if bug_type wp then 1 else 0)
   \<and> feature_count (metrics_wp wp m)
       = feature_count m + (if \<not> bug_type wp \<and> feature_type wp then 1 else 0)"
  by (simp add: metrics_wp_def metrics_type_def metrics_status_fields bug_type_def
      feature_type_def Let_def)

lemma fold_metrics_wp_type:
  "bug_count (fold metrics_wp wps m) = bug_count m + length (filter bug_type wps)
   \<and> feature_count (fold metrics_wp wps m)
       = feature_count m + length (filter (\<lambda>wp. \<not> bug_type wp \<and> feature_type wp) wps)"
proof (induction wps arbitrary: m)
  case Nil
  show ?case by simp
next
  case (Cons wp wps)
  show ?case
    using Cons.IH [of "metrics_wp wp m"] metrics_wp_type_step [of wp m] by simp
qed

lemma calculate_metrics_type_counts:
  "bug_count (calculate_metrics wps tes) = length (filter bug_type wps)
   \<and> feature_count (calculate_metrics wps tes)
       = length (filter (\<lambda>wp. \<not> bug_type wp \<and> feature_type wp) wps)"
  using fold_metrics_wp_type [of wps "metrics_init wps"]
  by (simp add: calculate_metrics_def fold_metrics_te_counts metrics_init_def)

text \<open>
  C10. For every list of work packages and every list of time entries,
  \<open>calculate_metrics\<close> sets \<open>bug_count\<close> to the number of work packages whose type
  label contains \<open>bug\<close> or \<open>defect\<close>, and \<open>feature_count\<close> to the number of those
  whose label contains \<open>feature\<close>, \<open>story\<close> or \<open>task\<close> and neither \<open>bug\<close> nor
  \<open>defect\<close>. So a work package counts for at most one of the two, for \<open>bug_count\<close>
  when its label has a keyword of both kinds: adding such a work package to the list
  raises \<open>bug_count\<close> by one and leaves \<open>feature_count\<close> as it was. And
  \<open>bug_count + feature_count\<close> is at most \<open>total_wps\<close>.
\<close>

theorem type_counters_exclusive:
  "bug_count (calculate_metrics wps tes) = length (filter bug_type wps)
   \<and> feature_count (calculate_metrics wps tes)
       = length (filter (\<lambda>wp. \<not> bug_type wp \<and> feature_type wp) wps)
   \<and> (bug_type wp \<longrightarrow>
        bug_count (calculate_metrics (wps @ [wp]) tes)
          = bug_count (calculate_metrics wps tes) + 1
        \<and> feature_count (calculate_metrics (wps @ [wp]) tes)
          = feature_count (calculate_metrics wps tes))
   \<and> bug_count (calculate_metrics (wps @ [wp]) tes)
       + feature_count (calculate_metrics (wps @ [wp]) tes)
       \<le> bug_count (calculate_metrics wps tes) + feature_count (calculate_metrics wps tes) + 1
   \<and> bug_count (calculate_metrics wps tes) + feature_count (calculate_metrics wps tes)
       \<le> total_wps (calculate_metrics wps tes)"
proof -
  have total: "total_wps (calculate_metrics wps tes) = length wps"
    by (simp add: calculate_metrics_def fold_metrics_te_counts fold_metrics_wp_total
        metrics_init_def)
  have "length (filter bug_type wps)
          + length (filter (\<lambda>wp. \<not> bug_type wp \<and> feature_type wp) wps) \<le> length wps"
    by (induction wps) auto
  then show ?thesis
    by (simp add: calculate_metrics_type_counts total)
qed

theorem type_counters_exclusive_witness:
  "bug_type (base_wp\<lparr>emb_type_name := Some ''Bug (feature task)''\<rparr>)
   \<and> feature_type (base_wp\<lparr>emb_type_name := Some ''Bug (feature task)''\<rparr>)
   \<and> bug_count (calculate_metrics
        ([base_wp\<lparr>emb_type_name := Some ''User story''\<rparr>]
         @ [base_wp\<lparr>emb_type_name := Some ''Bug (feature task)''\<rparr>]) []) = 1
   \<and> feature_count (calculate_metrics
        ([base_wp\<lparr>emb_type_name := Some ''User story''\<rparr>]
         @ [base_wp\<lparr>emb_type_name := Some ''Bug (feature task)''\<rparr>]) []) = 1
   \<and> bug_count (calculate_metrics [base_wp\<lparr>emb_type_name := Some ''User story''\<rparr>] []) = 0
   \<and> feature_count (calculate_metrics [base_wp\<lparr>emb_type_name := Some ''User story''\<rparr>] []) = 1"
  using type_counters_exclusive
    [of "[base_wp\<lparr>emb_type_name := Some ''User story''\<rparr>]" "[]"
        "base_wp\<lparr>emb_type_name := Some ''Bug (feature task)''\<rparr>"]
  by (simp add: bug_type_def feature_type_def base_wp_def get_or_def lower_def lower_char_def)

section \<open>Properties of the record fetcher\<close>

text \<open>The two ways the loop stops, for any client.\<close>

lemma fetch_loop_stops_on_empty_page:
  assumes "get offset page_size = Inr wp_result" "env_elements wp_result = []"
  shows "fetch_loop get page_size offset offsets acc = Some (offsets @ [offset], Inr acc)"
  using assms by (subst fetch_loop.simps) simp

lemma fetch_loop_stops_at_total:
  assumes "get offset page_size = Inr wp_result" "env_elements wp_result \<noteq> []"
    "env_total wp_result \<le> int offset + int page_size"
  shows "fetch_loop get page_size offset offsets acc
         = Some (offsets @ [offset], Inr (acc @ env_elements wp_result))"
  using assms by (subst fetch_loop.simps) simp

text \<open>Against a server that pages the list \<open>recs\<close>.\<close>

lemma paged_last:
  assumes "500 * k < length recs" "length recs \<le> 500 * k + 500"
  shows "fetch_loop (paged_server recs) 500 (500 * k) offs (take (500 * k) recs)
         = Some (offs @ [500 * k], Inr recs)"
proof -
  have ne: "take 500 (drop (500 * k) recs) \<noteq> []" using assms(1) by simp
  have all: "take (500 * k) recs @ take 500 (drop (500 * k) recs) = recs"
    using assms(2) by (simp add: take_add [symmetric])
  show ?thesis
    using ne all assms(2)
    by (subst fetch_loop.simps) (simp add: paged_server_def)
qed

lemma paged_more:
  assumes "500 * k + 500 < length recs"
  shows "fetch_loop (paged_server recs) 500 (500 * k) offs (take (500 * k) recs)
         = fetch_loop (paged_server recs) 500 (500 * Suc k) (offs @ [500 * k])
             (take (500 * Suc k) recs)"
proof -
  have ne: "take 500 (drop (500 * k) recs) \<noteq> []" using assms by simp
  have "take (500 * Suc k) recs = take (500 * k + 500) recs"
    by (simp add: add.commute)
  then have acc: "take (500 * k) recs @ take 500 (drop (500 * k) recs) = take (500 * Suc k) recs"
    by (simp add: take_add)
  show ?thesis
    using ne acc assms
    by (subst fetch_loop.simps) (simp add: paged_server_def add.commute)
qed

lemma paged_from:
  assumes "500 * k < length recs"
  shows "fetch_loop (paged_server recs) 500 (500 * k) (map (\<lambda>i. 500 * i) [0..<k])
           (take (500 * k) recs)
         = Some (map (\<lambda>i. 500 * i) [0..<(length recs + 499) div 500], Inr recs)"
  using assms
proof (induction "length recs - 500 * k" arbitrary: k rule: less_induct)
  case less
  show ?case
  proof (cases "length recs \<le> 500 * k + 500")
    case True
    have "(length recs + 499) div 500 = Suc k" using True less.prems by linarith
    then show ?thesis
      using paged_last [OF less.prems True, of "map (\<lambda>i. 500 * i) [0..<k]"] by simp
  next
    case False
    then have more: "500 * k + 500 < length recs" by simp
    have "fetch_loop (paged_server recs) 500 (500 * Suc k) (map (\<lambda>i. 500 * i) [0..<Suc k])
            (take (500 * Suc k) recs)
          = Some (map (\<lambda>i. 500 * i) [0..<(length recs + 499) div 500], Inr recs)"
      using more by (intro less.hyps) simp_all
    then show ?thesis
      using paged_more [OF more, of "map (\<lambda>i. 500 * i) [0..<k]"] by simp
  qed
qed

lemma paged_empty:
  "fetch_loop (paged_server []) 500 0 [] [] = Some ([0], Inr [])"
  by (subst fetch_loop.simps) (simp add: paged_server_def)

text \<open>
  C4. Against a server holding the records \<open>recs\<close>, the fetcher returns, and returns
  exactly \<open>recs\<close> (every record once, in order), after one request per page of 500 at
  the offsets 0, 500, 1000, ... (a single request at offset 0 when there are no
  records). For 1234 records the requests are at offsets 0, 500 and 1000; for 500
  records there is the one request at offset 0. The loop stops when the offset plus the
  page size reaches the total, or on an empty page.
\<close>

theorem fetch_all_paged:
  "fetch_all_project_work_packages (paged_server recs)
     = Some (map (\<lambda>i. 500 * i) [0..<max 1 ((length recs + 499) div 500)], Inr recs)
   \<and> (length recs = 1234 \<longrightarrow>
        fetch_all_project_work_packages (paged_server recs) = Some ([0, 500, 1000], Inr recs))
   \<and> (length recs = 500 \<longrightarrow>
        fetch_all_project_work_packages (paged_server recs) = Some ([0], Inr recs))"
proof -
  have gen: "fetch_all_project_work_packages (paged_server recs)
     = Some (map (\<lambda>i. 500 * i) [0..<max 1 ((length recs + 499) div 500)], Inr recs)"
  proof (cases "recs = []")
    case True
    then show ?thesis
      by (simp add: fetch_all_project_work_packages_def paged_empty)
  next
    case False
    then have pos: "500 * 0 < length recs" by simp
    have "1 \<le> (length recs + 499) div 500" using False
      by (cases recs) simp_all
    then have "max 1 ((length recs + 499) div 500) = (length recs + 499) div 500" by simp
    then show ?thesis
      using paged_from [OF pos] by (simp add: fetch_all_project_work_packages_def)
  qed
  have three: "[0..<3] = [0, 1, 2::nat]" by (simp add: upt_rec)
  show ?thesis
    using gen by (auto simp add: three)
qed

text \<open>The same at the lists of the first 1234 and the first 500 numbers, which are distinct.\<close>

theorem fetch_all_paged_witness:
  "length [0..<1234::nat] = 1234 \<and> distinct [0..<1234::nat]
   \<and> fetch_all_project_work_packages (paged_server [0..<1234::nat])
       = Some ([0, 500, 1000], Inr [0..<1234])
   \<and> length [0..<500::nat] = 500
   \<and> fetch_all_project_work_packages (paged_server [0..<500::nat]) = Some ([0], Inr [0..<500])"
proof -
  have a: "length [0..<1234::nat] = 1234" and b: "length [0..<500::nat] = 500"
    by simp_all
  have "fetch_all_project_work_packages (paged_server [0..<1234::nat])
          = Some ([0, 500, 1000], Inr [0..<1234])"
    using fetch_all_paged [of "[0..<1234::nat]"] a by blast
  moreover have "fetch_all_project_work_packages (paged_server [0..<500::nat])
          = Some ([0], Inr [0..<500])"
    using fetch_all_paged [of "[0..<500::nat]"] b by blast
  ultimately show ?thesis using a b by simp
qed

section \<open>Properties of the relevance filter\<close>

lemmas date_defs = strptime_ymd_def number_def digit_def day_token_def days_in_month_def
  is_leap_def iso_basic_def offset_ok_def fraction_of_def replace_Z_def dt_le_def dt_gt_def
  dt_fields_def prev_day_def example_from_def example_to_def

lemmas relevance_defs = is_relevant_def relevance_try_def in_range_def is_closed_status_def
  closed_status_keywords_def closed_on_of_def

text \<open>
  The first step of the cascade, for any parser: a work package whose \<open>updatedAt\<close>
  parses to a time between \<open>from_dt\<close> and \<open>to_dt\<close> is relevant. Both bounds are
  midnight of their day, so the first instant of the from-date is inside.
\<close>

lemma updated_in_window_relevant:
  assumes "get_or (updatedAt wp) [] \<noteq> []"
    "fromisoformat (replace_Z (get_or (updatedAt wp) [])) = Some t"
    "dt_le from_dt t" "dt_le t to_dt"
  shows "is_relevant fromisoformat from_dt to_dt wp"
  using assms by (simp add: is_relevant_def relevance_try_def in_range_def)

text \<open>
  C1, at the end of the window. The window from 2025-12-02 to 2025-12-08 ends, for the
  code, at 2025-12-08 00:00:00: a work package with status \<open>New\<close>, created a month
  before, whose \<open>updatedAt\<close> is 2025-12-08 at 23:59 is not relevant, although it was
  updated on the last day of the window.
\<close>

theorem window_end_of_day_excluded:
  "strptime_ymd ''2025-12-02'' = Some example_from
   \<and> strptime_ymd ''2025-12-08'' = Some example_to
   \<and> \<not> is_relevant iso_basic example_from example_to
         (base_wp\<lparr>emb_status_name := Some ''New'',
                  updatedAt := Some ''2025-12-08T23:59:00Z'',
                  createdAt := Some ''2025-11-03T09:00:00Z''\<rparr>)"
  by (simp add: date_defs relevance_defs eval_defs)

lemma is_closed_status_closed_fields:
  "is_closed_status (wp\<lparr>closedOn := c1, closedAt := c2\<rparr>) = is_closed_status wp"
  by (simp add: is_closed_status_def)

text \<open>
  C3, as the code has it. For every work package whose embedded status name contains
  one of the closed keywords: if its closed date (\<open>closedOn\<close>, or \<open>closedAt\<close> when
  \<open>closedOn\<close> is absent or empty) is present, parses, and lies within the window, from
  \<open>from_dt\<close> to \<open>to_dt\<close>, the work package is relevant, whatever its other timestamps
  are. For every work package whose status name contains none of the closed keywords,
  the two closed-date fields are not consulted: whatever they hold, the work package is
  relevant or not as it is without them.
\<close>

theorem closed_date_rule:
  "(is_closed_status wp \<and> closed_on_of wp \<noteq> []
      \<and> fromisoformat (replace_Z (closed_on_of wp)) = Some t
      \<and> dt_le from_dt t \<and> dt_le t to_dt
    \<longrightarrow> is_relevant fromisoformat from_dt to_dt wp)
   \<and> (\<not> is_closed_status wp
    \<longrightarrow> is_relevant fromisoformat from_dt to_dt (wp\<lparr>closedOn := c1, closedAt := c2\<rparr>)
        = is_relevant fromisoformat from_dt to_dt wp)"
proof (intro conjI impI)
  assume "is_closed_status wp \<and> closed_on_of wp \<noteq> []
      \<and> fromisoformat (replace_Z (closed_on_of wp)) = Some t
      \<and> dt_le from_dt t \<and> dt_le t to_dt"
  then show "is_relevant fromisoformat from_dt to_dt wp"
    by (simp add: is_relevant_def relevance_try_def in_range_def Let_def
        split: option.splits bool.splits)
next
  assume open_status: "\<not> is_closed_status wp"
  then have "\<not> is_closed_status (wp\<lparr>closedOn := c1, closedAt := c2\<rparr>)"
    by (simp add: is_closed_status_closed_fields)
  then show "is_relevant fromisoformat from_dt to_dt (wp\<lparr>closedOn := c1, closedAt := c2\<rparr>)
        = is_relevant fromisoformat from_dt to_dt wp"
    using open_status
    by (simp add: is_relevant_def relevance_try_def Let_def
        split: option.splits bool.splits)
qed

theorem closed_date_rule_witness:
  "(let wp = base_wp\<lparr>emb_status_name := Some ''Closed'',
                     updatedAt := Some ''2025-10-01T08:00:00Z'',
                     createdAt := Some ''2025-09-01T08:00:00Z'',
                     closedOn := Some ''2025-12-05T10:00:00Z''\<rparr>;
        t = \<lparr> year = 2025, month = 12, day = 5, hour = 10, minute = 0, second = 0,
               microsecond = 0 \<rparr>;
        wp' = base_wp\<lparr>emb_status_name := Some ''Rejected'',
                      updatedAt := Some ''2025-10-01T08:00:00Z'',
                      createdAt := Some ''2025-09-01T08:00:00Z''\<rparr>
    in is_closed_status wp \<and> closed_on_of wp \<noteq> []
       \<and> iso_basic (replace_Z (closed_on_of wp)) = Some t
       \<and> dt_le example_from t \<and> dt_le t example_to
       \<and> is_relevant iso_basic example_from example_to wp
       \<and> \<not> is_closed_status wp'
       \<and> is_relevant iso_basic example_from example_to
           (wp'\<lparr>closedOn := Some ''2025-12-05T10:00:00Z'', closedAt := None\<rparr>)
         = is_relevant iso_basic example_from example_to wp')"
  using closed_date_rule
    [of "base_wp\<lparr>emb_status_name := Some ''Closed'',
                     updatedAt := Some ''2025-10-01T08:00:00Z'',
                     createdAt := Some ''2025-09-01T08:00:00Z'',
                     closedOn := Some ''2025-12-05T10:00:00Z''\<rparr>"
        iso_basic
        "\<lparr> year = 2025, month = 12, day = 5, hour = 10, minute = 0, second = 0,
               microsecond = 0 \<rparr>"
        example_from example_to]
    closed_date_rule
    [of "base_wp\<lparr>emb_status_name := Some ''Rejected'',
                      updatedAt := Some ''2025-10-01T08:00:00Z'',
                      createdAt := Some ''2025-09-01T08:00:00Z''\<rparr>"
        iso_basic _ example_from example_to "Some ''2025-12-05T10:00:00Z''" None]
  by (simp add: date_defs relevance_defs eval_defs)

text \<open>
  C3 as stated fails: the closed date is read only under the closed-status test. A work
  package with status \<open>Rejected\<close>, updated and created before the window, whose
  \<open>closedOn\<close> lies in the window is not relevant.
\<close>

theorem closed_date_counterexample:
  "in_range iso_basic example_from example_to
     (closed_on_of (base_wp\<lparr>emb_status_name := Some ''Rejected'',
                     updatedAt := Some ''2025-10-01T08:00:00Z'',
                     createdAt := Some ''2025-09-01T08:00:00Z'',
                     closedOn := Some ''2025-12-05T10:00:00Z''\<rparr>)) = Some True
   \<and> \<not> is_relevant iso_basic example_from example_to
         (base_wp\<lparr>emb_status_name := Some ''Rejected'',
                     updatedAt := Some ''2025-10-01T08:00:00Z'',
                     createdAt := Some ''2025-09-01T08:00:00Z'',
                     closedOn := Some ''2025-12-05T10:00:00Z''\<rparr>)"
  by (simp add: date_defs relevance_defs eval_defs)

section \<open>Properties of the entry point\<close>

text \<open>
  C9, as the code has it. For every request whose \<open>from_date\<close> or \<open>to_date\<close> the
  parser \<open>strptime\<close> rejects, or whose \<open>from_date\<close> is after its \<open>to_date\<close>, the entry
  point returns: its result is \<open>format_error\<close> of some message, and no request was
  made to the client. This holds for every date parser, client, timestamp parser and
  renderer, and also when \<open>get_client()\<close> raises.
\<close>

theorem invalid_dates_rejected:
  assumes "case (strptime (from_date inp), strptime (to_date inp)) of
             (Some from_dt, Some to_dt) \<Rightarrow> dt_gt from_dt to_dt
           | _ \<Rightarrow> True"
  shows "\<exists>message. generate_weekly_report_impl format_error get_client strptime fromisoformat
            render_json render_markdown inp = Some ([], format_error message)"
  using assms
  by (auto simp add: generate_weekly_report_impl_def report_body_def
      split: sum.splits option.splits)

theorem invalid_dates_rejected_witness:
  "strptime_ymd ''2025-12-09'' = Some (example_to\<lparr>day := 9\<rparr>)
   \<and> strptime_ymd ''2025-12-08'' = Some example_to
   \<and> dt_gt (example_to\<lparr>day := 9\<rparr>) example_to
   \<and> (\<exists>message. generate_weekly_report_impl example_format_error (Inr example_client)
          strptime_ymd iso_basic example_render_json example_render_markdown
          (example_input ''2025-12-09'' ''2025-12-08'')
        = Some ([], example_format_error message))
   \<and> strptime_ymd ''2025-13-01'' = None
   \<and> (\<exists>message. generate_weekly_report_impl example_format_error (Inr example_client)
          strptime_ymd iso_basic example_render_json example_render_markdown
          (example_input ''2025-13-01'' ''2025-12-08'')
        = Some ([], example_format_error message))"
  using invalid_dates_rejected
      [of strptime_ymd "example_input ''2025-12-09'' ''2025-12-08''" example_format_error
          "Inr example_client" iso_basic example_render_json example_render_markdown]
    invalid_dates_rejected
      [of strptime_ymd "example_input ''2025-13-01'' ''2025-12-08''" example_format_error
          "Inr example_client" iso_basic example_render_json example_render_markdown]
  by (simp add: date_defs example_input_def)

lemma fetch_all_empty_project:
  "fetch_all_project_work_packages (get_work_packages empty_project_client pid)
   = Some ([0], Inr [])"
  using fetch_loop_stops_on_empty_page
    [of "get_work_packages empty_project_client pid" 0 500
        "\<lparr> env_elements = [], env_total = 0 \<rparr>" "[]" "[]"]
  by (simp add: fetch_all_project_work_packages_def empty_project_client_def)

text \<open>
  C9 as stated fails: \<open>2025-1-5\<close> is not a well-formed \<open>YYYY-MM-DD\<close> date, and
  \<open>strptime\<close> reads it as the fifth of January. The request from \<open>2025-1-5\<close> to
  \<open>2025-12-08\<close> is processed: the project, its work packages, members and time entries
  are fetched and a report is returned.
\<close>

theorem lenient_date_counterexample:
  "\<not> well_formed_ymd ''2025-1-5''
   \<and> generate_weekly_report_impl example_format_error (Inr empty_project_client)
        strptime_ymd iso_basic example_render_json example_render_markdown
        (example_input ''2025-1-5'' ''2025-12-08'')
     = Some ([Get_project 5, Get_work_packages 5 0 500, Get_memberships 5,
              Get_time_entries ''2025-1-5'' ''2025-12-08'' 5],
             ''# WEEKLY REPORT'')"
proof -
  have "\<not> well_formed_ymd ''2025-1-5''"
    by (simp add: well_formed_ymd_def)
  moreover have "strptime_ymd ''2025-1-5'' = Some (example_to\<lparr>month := 1, day := 5\<rparr>)"
    by (simp add: date_defs)
  moreover have "strptime_ymd ''2025-12-08'' = Some example_to"
    by (simp add: date_defs)
  moreover have "\<not> dt_gt (example_to\<lparr>month := 1, day := 5\<rparr>) example_to"
    by (simp add: date_defs)
  moreover have "get_project empty_project_client 5 = Inr ()"
    and "get_memberships empty_project_client 5 = Inr []"
    and "get_time_entries empty_project_client ''2025-1-5'' ''2025-12-08'' 5 = Inr []"
    by (simp_all add: empty_project_client_def)
  ultimately show ?thesis
    by (simp add: generate_weekly_report_impl_def report_body_def collect_and_render_def
        fetch_all_empty_project example_input_def relevant_work_packages_def
        collect_relations_def example_render_markdown_def lower_def lower_char_def Let_def)
qed

end
